theory Spec2Isabelle
  imports Complex_Main "HOL-Library.Monad_Syntax" "HOL-Library.AList"
    "HOL-Library.Char_ord" "HOL-Library.List_Lexorder"
begin

section \<open>Conventions of the embedding\<close>

text \<open>
  The functions of \<^verbatim>\<open>scripts/theme.py\<close> are embedded one by one, under their own names.
  \<^item> A Python \<^verbatim>\<open>str\<close> is a \<open>string\<close>; its characters are read as the code points
    below 256.
  \<^item> A Python \<^verbatim>\<open>int\<close> is an \<open>int\<close>.
  \<^item> A Python \<^verbatim>\<open>float\<close> is a \<open>real\<close>: the arithmetic of the colour functions is
    exact here, the rounding of binary floating point is not part of the embedding.
  \<^item> A call that raises an exception returns \<open>None\<close>; a call that returns \<open>v\<close>
    returns \<open>Some v\<close>, or \<open>v\<close> itself where the function cannot raise.
\<close>

section \<open>Built-ins of Python used by the colour utilities\<close>

text \<open>The characters that \<^verbatim>\<open>int(s, 16)\<close> skips at both ends of \<open>s\<close>.\<close>

definition py_isspace :: "char \<Rightarrow> bool" where
  "py_isspace c = (of_char c \<in> {9, 10, 11, 12, 13, 28, 29, 30, 31, 32, 133, 160 :: nat})"

definition hex_digit_val :: "char \<Rightarrow> nat option" where
  "hex_digit_val c =
     (let n = (of_char c :: nat) in
      if 48 \<le> n \<and> n \<le> 57 then Some (n - 48)
      else if 97 \<le> n \<and> n \<le> 102 then Some (n - 87)
      else if 65 \<le> n \<and> n \<le> 70 then Some (n - 55)
      else None)"

text \<open>
  The digits of \<^verbatim>\<open>int(s, 16)\<close>: hexadecimal digits, with single underscores between
  digits only. \<open>prev\<close> tells whether the previous character was an underscore, \<open>acc\<close>
  is the value read so far.
\<close>

fun py_hex_digits :: "bool \<Rightarrow> nat \<Rightarrow> string \<Rightarrow> nat option" where
  "py_hex_digits prev acc [] = (if prev then None else Some acc)"
| "py_hex_digits prev acc (c # cs) =
     (if c = CHR ''_'' then (if prev then None else py_hex_digits True acc cs)
      else (case hex_digit_val c of
              None \<Rightarrow> None
            | Some d \<Rightarrow> py_hex_digits False (16 * acc + d) cs))"

definition py_strip :: "string \<Rightarrow> string" where
  "py_strip s = rev (dropWhile py_isspace (rev (dropWhile py_isspace s)))"

text \<open>
  \<^verbatim>\<open>int(s, 16)\<close>: surrounding whitespace, an optional sign, an optional \<^verbatim>\<open>0x\<close> prefix
  (which one underscore may follow), then the digits, of which there is at least one.
  \<open>None\<close> is Python's \<^verbatim>\<open>ValueError\<close>.
\<close>

definition py_unsigned16 :: "string \<Rightarrow> nat option" where
  "py_unsigned16 s =
     (let body =
        (case s of
           a # b # rest \<Rightarrow>
             (if a = CHR ''0'' \<and> (b = CHR ''x'' \<or> b = CHR ''X'')
              then (case rest of u # rest' \<Rightarrow> (if u = CHR ''_'' then rest' else rest) | [] \<Rightarrow> rest)
              else s)
         | _ \<Rightarrow> s)
      in (case body of
            [] \<Rightarrow> None
          | c # cs \<Rightarrow> (if c = CHR ''_'' then None else py_hex_digits False 0 body)))"

definition py_int16 :: "string \<Rightarrow> int option" where
  "py_int16 s =
     (case py_strip s of
        [] \<Rightarrow> None
      | c # cs \<Rightarrow>
          (if c = CHR ''-'' then map_option (\<lambda>n. - int n) (py_unsigned16 cs)
           else if c = CHR ''+'' then map_option int (py_unsigned16 cs)
           else map_option int (py_unsigned16 (c # cs))))"

definition hex_char :: "nat \<Rightarrow> char" where
  "hex_char d = ''0123456789abcdef'' ! d"

text \<open>The lower-case hexadecimal digits of a natural number, without padding.\<close>

function hex_str :: "nat \<Rightarrow> string" where
  "hex_str n = (if n < 16 then [hex_char n] else hex_str (n div 16) @ [hex_char (n mod 16)])"
  by pat_completeness auto
termination
  by (relation "measure id") auto

text \<open>
  The format specification \<^verbatim>\<open>02x\<close>: lower-case hexadecimal, padded with zeros to two
  characters, the sign of a negative number counting as one of them.
\<close>

definition format_02x :: "int \<Rightarrow> string" where
  "format_02x n =
     (if n < 0 then CHR ''-'' # hex_str (nat (- n))
      else (let s = hex_str (nat n) in if length s < 2 then CHR ''0'' # s else s))"

text \<open>\<^verbatim>\<open>int(x)\<close> of a float truncates towards zero.\<close>

definition py_trunc :: "real \<Rightarrow> int" where
  "py_trunc x = (if 0 \<le> x then \<lfloor>x\<rfloor> else \<lceil>x\<rceil>)"

text \<open>\<^verbatim>\<open>a / b\<close> raises \<^verbatim>\<open>ZeroDivisionError\<close> when \<open>b\<close> is zero.\<close>

definition py_truediv :: "real \<Rightarrow> real \<Rightarrow> real option" where
  "py_truediv a b = (if b = 0 then None else Some (a / b))"

section \<open>Colour utilities\<close>

definition hex_to_rgb :: "string \<Rightarrow> (int \<times> int \<times> int) option" where
  "hex_to_rgb hex_color =
     (let h = take 6 (dropWhile (\<lambda>c. c = CHR ''#'') hex_color) in
      do {
        r \<leftarrow> py_int16 (take 2 h);
        g \<leftarrow> py_int16 (take 2 (drop 2 h));
        b \<leftarrow> py_int16 (take 2 (drop 4 h));
        Some (r, g, b)
      })"

definition rgb_to_hex :: "int \<times> int \<times> int \<Rightarrow> string" where
  "rgb_to_hex rgb =
     (case rgb of (r, g, b) \<Rightarrow> CHR ''#'' # format_02x r @ format_02x g @ format_02x b)"

definition hex_to_hsl :: "string \<Rightarrow> (real \<times> real \<times> real) option" where
  "hex_to_hsl hex_color =
     do {
       (r', g', b') \<leftarrow> hex_to_rgb hex_color;
       let r = real_of_int r' / 255;
       let g = real_of_int g' / 255;
       let b = real_of_int b' / 255;
       let mx = max r (max g b);
       let mn = min r (min g b);
       let l = (mx + mn) / 2;
       (h, s) \<leftarrow>
         (if mx = mn then Some (0, 0)
          else do {
            let d = mx - mn;
            s \<leftarrow> (if l > 0.5 then py_truediv d (2 - mx - mn) else py_truediv d (mx + mn));
            h \<leftarrow>
              (if mx = r then map_option (\<lambda>x. x + (if g < b then 6 else 0)) (py_truediv (g - b) d)
               else if mx = g then map_option (\<lambda>x. x + 2) (py_truediv (b - r) d)
               else map_option (\<lambda>x. x + 4) (py_truediv (r - g) d));
            Some (h / 6, s)
          });
       Some (h * 360, s * 100, l * 100)
     }"

text \<open>The local function \<^verbatim>\<open>hue2rgb\<close> of \<^verbatim>\<open>hsl_to_hex\<close>, with its free variables
  \<open>p\<close> and \<open>q\<close> as parameters. \<^verbatim>\<open>t % 1\<close> is the fractional part.\<close>

definition hue2rgb :: "real \<Rightarrow> real \<Rightarrow> real \<Rightarrow> real" where
  "hue2rgb p q t0 =
     (let t = frac t0 in
      if t < 1 / 6 then p + (q - p) * 6 * t
      else if t < 1 / 2 then q
      else if t < 2 / 3 then p + (q - p) * (2 / 3 - t) * 6
      else p)"

definition hsl_to_hex :: "real \<Rightarrow> real \<Rightarrow> real \<Rightarrow> string" where
  "hsl_to_hex h0 s0 l0 =
     (let h = h0 / 360; s = s0 / 100; l = l0 / 100;
          (r, g, b) =
            (if s = 0 then (l, l, l)
             else (let q = (if l < 0.5 then l * (1 + s) else l + s - l * s);
                       p = 2 * l - q
                   in (hue2rgb p q (h + 1 / 3), hue2rgb p q h, hue2rgb p q (h - 1 / 3))))
      in rgb_to_hex (py_trunc (r * 255), py_trunc (g * 255), py_trunc (b * 255)))"

definition channel :: "real \<Rightarrow> real" where
  "channel c = (if c \<le> 0.03928 then c / 12.92 else ((c + 0.055) / 1.055) powr 2.4)"

definition luminance :: "int \<times> int \<times> int \<Rightarrow> real" where
  "luminance rgb =
     (case rgb of (r, g, b) \<Rightarrow>
        0.2126 * channel (real_of_int r / 255) + 0.7152 * channel (real_of_int g / 255)
          + 0.0722 * channel (real_of_int b / 255))"

definition contrast_ratio :: "string \<Rightarrow> string \<Rightarrow> real option" where
  "contrast_ratio c1 c2 =
     do {
       rgb1 \<leftarrow> hex_to_rgb c1;
       rgb2 \<leftarrow> hex_to_rgb c2;
       let l1 = luminance rgb1;
       let l2 = luminance rgb2;
       py_truediv (max l1 l2 + 0.05) (min l1 l2 + 0.05)
     }"

definition adjust_lightness :: "string \<Rightarrow> real \<Rightarrow> string option" where
  "adjust_lightness hex_color delta =
     do {
       (h, s, l) \<leftarrow> hex_to_hsl hex_color;
       Some (hsl_to_hex h s (max 0 (min 100 (l + delta))))
     }"

text \<open>
  The loop \<^verbatim>\<open>for _ in range(100)\<close> of \<^verbatim>\<open>ensure_contrast\<close>, with the number of
  iterations left as first argument; after the last one the function returns
  \<^verbatim>\<open>hsl_to_hex(h, s, l)\<close>.
\<close>

fun contrast_search :: "nat \<Rightarrow> real \<Rightarrow> real \<Rightarrow> real \<Rightarrow> real \<Rightarrow> string \<Rightarrow> real \<Rightarrow> string option" where
  "contrast_search 0 h s l step bg min_ratio = Some (hsl_to_hex h s l)"
| "contrast_search (Suc n) h s l step bg min_ratio =
     (let l' = max 0 (min 100 (l + step));
          candidate = hsl_to_hex h s l'
      in do {
        c \<leftarrow> contrast_ratio candidate bg;
        if c \<ge> min_ratio then Some candidate
        else contrast_search n h s l' step bg min_ratio
      })"

definition ensure_contrast :: "string \<Rightarrow> string \<Rightarrow> real \<Rightarrow> string \<Rightarrow> string option" where
  "ensure_contrast fg bg min_ratio direction =
     do {
       c \<leftarrow> contrast_ratio fg bg;
       if c \<ge> min_ratio then Some fg
       else do {
         (h, s, l) \<leftarrow> hex_to_hsl fg;
         rgb \<leftarrow> hex_to_rgb bg;
         let bg_lum = luminance rgb;
         let go_lighter = (direction = ''lighter'' \<or> (direction = ''auto'' \<and> bg_lum < 0.5));
         let step = (if go_lighter then 1 else - 1);
         contrast_search 100 h s l step bg min_ratio
       }
     }"

text \<open>
  The table \<^verbatim>\<open>VARIANT_ADJUSTMENTS\<close>: for each variant, its named parameters.
\<close>

definition VARIANT_ADJUSTMENTS :: "(string \<times> (string \<times> real) list) list" where
  "VARIANT_ADJUSTMENTS =
     [(''soft'', [(''lightness_delta'', 6), (''target_contrast'', 4.5)]),
      (''high_contrast'', [(''lightness_delta'', - 8), (''target_contrast'', 7.0)])]"

text \<open>\<^verbatim>\<open>d.get(k, default)\<close> on a dictionary kept as an association list.\<close>

definition dict_get :: "('k \<times> 'v) list \<Rightarrow> 'k \<Rightarrow> 'v \<Rightarrow> 'v" where
  "dict_get d k dflt = (case map_of d k of None \<Rightarrow> dflt | Some v \<Rightarrow> v)"

text \<open>
  \<^verbatim>\<open>derive_variant_color\<close> reads the global table; \<open>derive_variant_color_with\<close> takes
  the table as an argument, and \<open>derive_variant_color\<close> is the function at the table
  of the source.
\<close>

definition derive_variant_color_with ::
  "(string \<times> (string \<times> real) list) list \<Rightarrow> string \<Rightarrow> string \<Rightarrow> string \<Rightarrow> string option" where
  "derive_variant_color_with adjustments base_color bg_color variant =
     (if variant = ''classic'' then Some base_color
      else (let adj = dict_get adjustments variant [];
                delta = dict_get adj ''lightness_delta'' 0;
                target = dict_get adj ''target_contrast'' 4.5
            in do {
              adjusted \<leftarrow> adjust_lightness base_color delta;
              ensure_contrast adjusted bg_color target ''auto''
            }))"

definition derive_variant_color :: "string \<Rightarrow> string \<Rightarrow> string \<Rightarrow> string option" where
  "derive_variant_color = derive_variant_color_with VARIANT_ADJUSTMENTS"

section \<open>JSON values and the built-ins used on them\<close>

text \<open>
  The documents read by \<^verbatim>\<open>json.loads\<close>. A dictionary is an association list in
  insertion order, as Python keeps it. The numbers of the model are the integers:
  a number with a fraction or an exponent is outside the model.
\<close>

datatype json =
    JNull
  | JBool bool
  | JInt int
  | JStr string
  | JList "json list"
  | JObj "(string \<times> json) list"

text \<open>\<^verbatim>\<open>d[k] = v\<close>, and a dictionary display or comprehension, which stores its items
  from left to right.\<close>

definition dict_set :: "('k \<times> 'v) list \<Rightarrow> 'k \<Rightarrow> 'v \<Rightarrow> ('k \<times> 'v) list" where
  "dict_set d k v = AList.update k v d"

definition dict_of_items :: "('k \<times> 'v) list \<Rightarrow> ('k \<times> 'v) list" where
  "dict_of_items items = foldl (\<lambda>d kv. dict_set d (fst kv) (snd kv)) [] items"

text \<open>\<^verbatim>\<open>obj[k]\<close> for a string \<open>k\<close>: a \<^verbatim>\<open>KeyError\<close> on a dictionary without the key,
  a \<^verbatim>\<open>TypeError\<close> on every other value.\<close>

definition py_getitem :: "json \<Rightarrow> string \<Rightarrow> json option" where
  "py_getitem obj k = (case obj of JObj kvs \<Rightarrow> map_of kvs k | _ \<Rightarrow> None)"

text \<open>\<^verbatim>\<open>obj.get(k, default)\<close>, \<^verbatim>\<open>obj.items()\<close> and \<^verbatim>\<open>obj.keys()\<close>: an
  \<^verbatim>\<open>AttributeError\<close> on a value that is not a dictionary.\<close>

definition py_get :: "json \<Rightarrow> string \<Rightarrow> json \<Rightarrow> json option" where
  "py_get obj k dflt = (case obj of JObj kvs \<Rightarrow> Some (dict_get kvs k dflt) | _ \<Rightarrow> None)"

definition py_items :: "json \<Rightarrow> (string \<times> json) list option" where
  "py_items obj = (case obj of JObj kvs \<Rightarrow> Some kvs | _ \<Rightarrow> None)"

definition py_keys :: "json \<Rightarrow> string list option" where
  "py_keys obj = (case obj of JObj kvs \<Rightarrow> Some (map fst kvs) | _ \<Rightarrow> None)"

text \<open>Iteration (\<^verbatim>\<open>for x in obj\<close>) and \<^verbatim>\<open>len(obj)\<close>: a list gives its elements, a
  dictionary its keys, a string its characters; a \<^verbatim>\<open>TypeError\<close> otherwise.\<close>

definition py_iter :: "json \<Rightarrow> json list option" where
  "py_iter obj =
     (case obj of
        JList xs \<Rightarrow> Some xs
      | JObj kvs \<Rightarrow> Some (map (\<lambda>kv. JStr (fst kv)) kvs)
      | JStr s \<Rightarrow> Some (map (\<lambda>c. JStr [c]) s)
      | _ \<Rightarrow> None)"

definition py_len :: "json \<Rightarrow> nat option" where
  "py_len obj =
     (case obj of
        JList xs \<Rightarrow> Some (length xs)
      | JObj kvs \<Rightarrow> Some (length kvs)
      | JStr s \<Rightarrow> Some (length s)
      | _ \<Rightarrow> None)"

definition startswith :: "string \<Rightarrow> char \<Rightarrow> bool" where
  "startswith s c = (case s of [] \<Rightarrow> False | x # _ \<Rightarrow> x = c)"

text \<open>A list comprehension whose element expression may raise.\<close>

definition map_raise :: "('a \<Rightarrow> 'b option) \<Rightarrow> 'a list \<Rightarrow> 'b list option" where
  "map_raise f xs = those (map f xs)"

subsection \<open>\<^verbatim>\<open>str\<close> and \<^verbatim>\<open>repr\<close>\<close>

definition dec_char :: "nat \<Rightarrow> char" where
  "dec_char d = ''0123456789'' ! d"

function dec_str :: "nat \<Rightarrow> string" where
  "dec_str n = (if n < 10 then [dec_char n] else dec_str (n div 10) @ [dec_char (n mod 10)])"
  by pat_completeness auto
termination
  by (relation "measure id") auto

definition py_str_int :: "int \<Rightarrow> string" where
  "py_str_int i = (if i < 0 then CHR ''-'' # dec_str (nat (- i)) else dec_str (nat i))"

text \<open>
  \<^verbatim>\<open>repr\<close> of a string: single quotes, unless the string has a single quote and no
  double quote; the backslash, the quote in use and the characters that are not
  printable are escaped.
\<close>

definition py_repr_char :: "char \<Rightarrow> char \<Rightarrow> string" where
  "py_repr_char quote c =
     (let n = (of_char c :: nat) in
      if c = CHR 0x5C then [CHR 0x5C, CHR 0x5C]
      else if c = quote then [CHR 0x5C, quote]
      else if n = 9 then [CHR 0x5C, CHR ''t'']
      else if n = 10 then [CHR 0x5C, CHR ''n'']
      else if n = 13 then [CHR 0x5C, CHR ''r'']
      else if n < 32 \<or> n = 127 \<or> (128 \<le> n \<and> n \<le> 160) \<or> n = 173
        then [CHR 0x5C, CHR ''x'', hex_char (n div 16), hex_char (n mod 16)]
      else [c])"

definition py_repr_str :: "string \<Rightarrow> string" where
  "py_repr_str s =
     (let quote = (if CHR 0x27 \<in> set s \<and> CHR 0x22 \<notin> set s then CHR 0x22 else CHR 0x27)
      in quote # concat (map (py_repr_char quote) s) @ [quote])"

text \<open>\<^verbatim>\<open>sep.join(parts)\<close>.\<close>

fun join :: "string \<Rightarrow> string list \<Rightarrow> string" where
  "join sep [] = []"
| "join sep [x] = x"
| "join sep (x # y # ys) = x @ sep @ join sep (y # ys)"

fun py_repr :: "json \<Rightarrow> string" where
  "py_repr JNull = ''None''"
| "py_repr (JBool b) = (if b then ''True'' else ''False'')"
| "py_repr (JInt i) = py_str_int i"
| "py_repr (JStr s) = py_repr_str s"
| "py_repr (JList xs) = ''['' @ join '', '' (map py_repr xs) @ '']''"
| "py_repr (JObj kvs) =
     ''{'' @ join '', '' (map (\<lambda>kv. py_repr_str (fst kv) @ '': '' @ py_repr (snd kv)) kvs) @ ''}''"

text \<open>\<^verbatim>\<open>str(x)\<close>, which is also what an f-string field \<^verbatim>\<open>{x}\<close> prints.\<close>

definition py_str :: "json \<Rightarrow> string" where
  "py_str x = (case x of JStr s \<Rightarrow> s | _ \<Rightarrow> py_repr x)"

text \<open>
  \<^verbatim>\<open>str\<close> of a non-empty set of strings. Python prints the elements in an order of
  its own, which differs from run to run; the model prints them sorted.
\<close>

definition py_str_set :: "string list \<Rightarrow> string" where
  "py_str_set xs = ''{'' @ join '', '' (map py_repr_str (sort (remdups xs))) @ ''}''"

section \<open>Result type\<close>

record Result =
  ok :: bool
  message :: string

definition success :: "string \<Rightarrow> Result" where
  "success msg = \<lparr>ok = True, message = ''OK: '' @ msg\<rparr>"

definition failure :: "string \<Rightarrow> Result" where
  "failure msg = \<lparr>ok = False, message = ''FAIL: '' @ msg\<rparr>"

definition VARIANT_KEYS :: "string list" where
  "VARIANT_KEYS = [''classic'', ''soft'', ''high_contrast'']"

section \<open>Colour resolution\<close>

definition prefix_keys :: "string \<Rightarrow> (string \<times> json) list \<Rightarrow> (string \<times> json) list" where
  "prefix_keys pre items = dict_of_items (map (\<lambda>kv. (pre @ fst kv, snd kv)) items)"

definition not_meta :: "(string \<times> json) list \<Rightarrow> (string \<times> json) list" where
  "not_meta items = filter (\<lambda>kv. \<not> startswith (fst kv) CHR ''$'') items"

definition get_variant_colors :: "json \<Rightarrow> string \<Rightarrow> (string \<times> json) list option" where
  "get_variant_colors palette variant =
     do {
       pbase \<leftarrow> py_getitem palette ''base'';
       background \<leftarrow> py_getitem pbase ''background'' \<bind> py_items;
       foreground \<leftarrow> py_getitem pbase ''foreground'' \<bind> py_items;
       border \<leftarrow> py_getitem pbase ''border'' \<bind> py_items;
       syntax \<leftarrow> py_getitem palette ''syntax'' \<bind> py_items;
       terminal \<leftarrow> py_getitem palette ''terminal'' \<bind> py_items;
       let base = dict_of_items
             (prefix_keys ''background.'' background
              @ prefix_keys ''foreground.'' foreground
              @ prefix_keys ''border.'' border
              @ prefix_keys ''syntax.'' (not_meta syntax)
              @ prefix_keys ''terminal.'' terminal);
       if variant \<noteq> ''classic'' then do {
         variants \<leftarrow> py_get palette ''variants'' (JObj []);
         overrides \<leftarrow> py_get variants variant (JObj []) \<bind> py_items;
         Some (dict_of_items (base @ dict_of_items (not_meta overrides)))
       }
       else Some base
     }"

text \<open>
  The pattern \<^verbatim>\<open>\{\{([^}]+)\}\}\<close> tried at the head of a string: two opening braces,
  the longest run of characters other than a closing brace, which is not empty, and
  two closing braces. The result is group 1 and the text after the match. A shorter
  run cannot match, since the character after it is not a closing brace.
\<close>

definition match_placeholder :: "string \<Rightarrow> (string \<times> string) option" where
  "match_placeholder s =
     (case s of
        a # b # s' \<Rightarrow>
          (if a = CHR ''{'' \<and> b = CHR ''{'' then
             (let key = takeWhile (\<lambda>c. c \<noteq> CHR ''}'') s';
                  rest = dropWhile (\<lambda>c. c \<noteq> CHR ''}'') s'
              in if key \<noteq> [] \<and> take 2 rest = ''}}'' then Some (key, drop 2 rest) else None)
           else None)
      | _ \<Rightarrow> None)"

text \<open>
  What \<^verbatim>\<open>re.sub\<close> does with the value returned by the replacement function: a string
  is inserted, \<^verbatim>\<open>None\<close> inserts nothing, any other value is a \<^verbatim>\<open>TypeError\<close>.
\<close>

definition sub_item :: "json \<Rightarrow> string option" where
  "sub_item x = (case x of JNull \<Rightarrow> Some [] | JStr v \<Rightarrow> Some v | _ \<Rightarrow> None)"

text \<open>
  \<^verbatim>\<open>re.sub\<close> for that pattern: the matches are taken from left to right and do not
  overlap. The replacement function receives group 1 and group 0.
\<close>

function re_sub :: "(string \<Rightarrow> string \<Rightarrow> json) \<Rightarrow> string \<Rightarrow> string option" where
  "re_sub repl [] = Some []"
| "re_sub repl (c # cs) =
     (case match_placeholder (c # cs) of
        Some (key, rest) \<Rightarrow>
          do {
            v \<leftarrow> sub_item (repl key (''{{'' @ key @ ''}}''));
            r \<leftarrow> re_sub repl rest;
            Some (v @ r)
          }
      | None \<Rightarrow> map_option ((#) c) (re_sub repl cs))"
  by pat_completeness auto
termination
proof (relation "measure (\<lambda>(repl, s). length s)")
  fix repl :: "string \<Rightarrow> string \<Rightarrow> json" and c :: char and cs x y :: string
    and x2 :: "string \<times> string"
  assume "match_placeholder (c # cs) = Some x2" and "(x, y) = x2"
  then have "length y \<le> length cs"
    using length_dropWhile_le [of "\<lambda>c. c \<noteq> CHR ''}''" "tl cs"]
    by (auto simp: match_placeholder_def Let_def split: list.splits if_splits)
  then show "((repl, y), (repl, c # cs)) \<in> measure (\<lambda>(repl, s). length s)"
    by simp
qed simp_all

definition resolve_template :: "string \<Rightarrow> (string \<times> json) list \<Rightarrow> string option" where
  "resolve_template template colors =
     re_sub (\<lambda>group1 group0. dict_get colors group1 (JStr group0)) template"

text \<open>\<^verbatim>\<open>"{{" in value\<close>.\<close>

fun has_open_braces :: "string \<Rightarrow> bool" where
  "has_open_braces (a # b # cs) = ((a = CHR ''{'' \<and> b = CHR ''{'') \<or> has_open_braces (b # cs))"
| "has_open_braces _ = False"

fun resolve_value :: "json \<Rightarrow> (string \<times> json) list \<Rightarrow> json option" where
  "resolve_value (JStr s) colors =
     (if has_open_braces s then map_option JStr (resolve_template s colors) else Some (JStr s))"
| "resolve_value (JObj kvs) colors =
     map_option JObj
       (those (map (\<lambda>kv. map_option (Pair (fst kv)) (resolve_value (snd kv) colors)) kvs))"
| "resolve_value (JList vs) colors =
     map_option JList (those (map (\<lambda>v. resolve_value v colors) vs))"
| "resolve_value v colors = Some v"

section \<open>Generation\<close>

definition generate_players :: "json \<Rightarrow> json list option" where
  "generate_players palette =
     do {
       players \<leftarrow> py_getitem palette ''players'' \<bind> py_iter;
       Some (map (\<lambda>c. JObj [(''cursor'', c), (''background'', c),
                             (''selection'', JStr (py_str c @ ''40''))]) players)
     }"

text \<open>
  The tokens of one group, \<^verbatim>\<open>for token in tokens\<close>. A token is a string; a group
  with a token of another type is outside the model and counts as raising.
\<close>

definition group_tokens :: "json \<Rightarrow> string list option" where
  "group_tokens tokens =
     py_iter tokens \<bind> map_raise (\<lambda>x. case x of JStr t \<Rightarrow> Some t | _ \<Rightarrow> None)"

text \<open>
  The comprehension
  \<^verbatim>\<open>{token: key for key, tokens in m.items() if not key.startswith("$") for token in tokens}\<close>
  that builds both \<^verbatim>\<open>token_colors\<close> and \<^verbatim>\<open>token_styles\<close>.
\<close>

definition token_table :: "json \<Rightarrow> (string \<times> string) list option" where
  "token_table m =
     do {
       groups \<leftarrow> py_items m;
       pairs \<leftarrow> map_raise
         (\<lambda>kv. map_option (map (\<lambda>token. (token, fst kv))) (group_tokens (snd kv)))
         (not_meta groups);
       Some (dict_of_items (concat pairs))
     }"

text \<open>The loop over \<^verbatim>\<open>special_map.items()\<close>, which stores into \<^verbatim>\<open>syntax\<close>.\<close>

fun special_tokens ::
  "(string \<times> json) list \<Rightarrow> (string \<times> json) list \<Rightarrow> (string \<times> json) list
     \<Rightarrow> (string \<times> json) list option" where
  "special_tokens [] colors syntax = Some syntax"
| "special_tokens (kv # rest) colors syntax =
     (if \<not> startswith (fst kv) CHR ''$'' then
        (case snd kv of
           JStr template \<Rightarrow>
             do {
               c \<leftarrow> resolve_template template colors;
               special_tokens rest colors (dict_set syntax (fst kv) (JObj [(''color'', JStr c)]))
             }
         | _ \<Rightarrow> None)
      else special_tokens rest colors syntax)"

definition generate_syntax :: "json \<Rightarrow> (string \<times> json) list \<Rightarrow> (string \<times> json) list option" where
  "generate_syntax base colors =
     do {
       color_map \<leftarrow> py_getitem base ''syntax_colors'';
       style_map \<leftarrow> py_getitem base ''syntax_styles'';
       special_map \<leftarrow> py_get base ''syntax_special'' (JObj []);
       token_colors \<leftarrow> token_table color_map;
       token_styles \<leftarrow> token_table style_map;
       let get_color = (\<lambda>t.
             if map_of token_colors t = Some ''foreground''
             then dict_get colors ''foreground.primary'' JNull
             else dict_get colors (''syntax.'' @ dict_get token_colors t ''type'') JNull);
       let get_style = (\<lambda>t. case map_of token_styles t of None \<Rightarrow> JNull | Some st \<Rightarrow> JStr st);
       let syntax = map
             (\<lambda>token.
                (token,
                 JObj [(''color'', get_color token),
                       (''font_style'',
                          if get_style token \<noteq> JStr ''normal'' then get_style token
                          else JStr ''normal''),
                       (''font_weight'',
                          if get_style token = JStr ''bold'' then JInt 700 else JNull)]))
             (sort (remdups (map fst token_colors @ map fst token_styles)));
       special \<leftarrow> py_items special_map;
       special_tokens special colors syntax
     }"

definition generate_variant :: "json \<Rightarrow> json \<Rightarrow> string \<Rightarrow> json option" where
  "generate_variant base palette variant_key =
     do {
       colors \<leftarrow> get_variant_colors palette variant_key;
       config \<leftarrow> py_getitem base ''variants'' \<bind> (\<lambda>vs. py_getitem vs variant_key);
       ui \<leftarrow> py_getitem base ''ui'' \<bind> (\<lambda>v. resolve_value v colors);
       terminal_items \<leftarrow> py_getitem base ''terminal'' \<bind> py_items;
       terminal \<leftarrow> map_raise
         (\<lambda>kv. map_option (Pair (''terminal.'' @ fst kv)) (resolve_value (snd kv) colors))
         terminal_items;
       syntax \<leftarrow> generate_syntax base colors;
       background_deep \<leftarrow> map_of colors ''background.deep'';
       foreground_primary \<leftarrow> map_of colors ''foreground.primary'';
       syntax_type \<leftarrow> map_of colors ''syntax.type'';
       border_default \<leftarrow> map_of colors ''border.default'';
       border_focused \<leftarrow> map_of colors ''border.focused'';
       background_surface \<leftarrow> map_of colors ''background.surface'';
       background_elevated \<leftarrow> map_of colors ''background.elevated'';
       background_active \<leftarrow> map_of colors ''background.active'';
       line_number_alpha \<leftarrow> py_getitem config ''line_number_alpha'';
       ui_items \<leftarrow> py_items ui;
       players \<leftarrow> generate_players palette;
       let style = dict_of_items
             ([(''background'', background_deep),
               (''foreground'', foreground_primary),
               (''accent'', syntax_type),
               (''border'', border_default),
               (''border.focused'', border_focused),
               (''elevated_surface.background'', background_surface),
               (''surface.background'', background_surface),
               (''element.background'', background_surface),
               (''element.hover'', background_elevated),
               (''element.active'', background_active),
               (''element.selected'', background_active),
               (''text'', foreground_primary),
               (''editor.background'', background_surface),
               (''editor.active_line.background'', background_elevated),
               (''editor.line_number'',
                  JStr (py_str foreground_primary @ py_str line_number_alpha))]
              @ ui_items
              @ dict_of_items terminal
              @ [(''players'', JList players),
                 (''syntax'', JObj syntax)]);
       name \<leftarrow> py_getitem config ''name'';
       Some (JObj [(''name'', name), (''appearance'', JStr ''dark''), (''style'', JObj style)])
     }"

definition generate_theme :: "json \<Rightarrow> json \<Rightarrow> json option" where
  "generate_theme base palette =
     do {
       schema \<leftarrow> py_getitem base ''$schema'';
       name \<leftarrow> py_getitem base ''name'';
       author \<leftarrow> py_getitem base ''author'';
       themes \<leftarrow> map_raise (generate_variant base palette) VARIANT_KEYS;
       Some (JObj [(''$schema'', schema), (''name'', name), (''author'', author),
                   (''themes'', JList themes)])
     }"

section \<open>Validation\<close>

fun find_colors :: "json \<Rightarrow> string \<Rightarrow> (string \<times> string) list" where
  "find_colors (JObj kvs) path =
     concat (map (\<lambda>kv. find_colors (snd kv) (path @ ''.'' @ fst kv)) kvs)"
| "find_colors (JStr s) path = (if startswith s CHR ''#'' then [(path, s)] else [])"
| "find_colors _ path = []"

definition is_hex_digit :: "char \<Rightarrow> bool" where
  "is_hex_digit c = (hex_digit_val c \<noteq> None)"

text \<open>\<^verbatim>\<open>$\<close> matches at the end of the string and before a newline that ends it.\<close>

definition at_dollar :: "string \<Rightarrow> bool" where
  "at_dollar s = (s = [] \<or> s = [CHR 0x0A])"

text \<open>
  \<^verbatim>\<open>pattern.match(c)\<close> for \<^verbatim>\<open>^#[0-9a-fA-F]{6}([0-9a-fA-F]{2})?$\<close>: whether there is a
  match.
\<close>

definition color_pattern_match :: "string \<Rightarrow> bool" where
  "color_pattern_match c =
     (case c of
        [] \<Rightarrow> False
      | x # body \<Rightarrow>
          x = CHR ''#'' \<and> length (take 6 body) = 6 \<and> list_all is_hex_digit (take 6 body)
          \<and> (let rest = drop 6 body in
               (length (take 2 rest) = 2 \<and> list_all is_hex_digit (take 2 rest)
                  \<and> at_dollar (drop 2 rest))
               \<or> at_dollar rest))"

text \<open>\<^verbatim>\<open>xs or ys\<close> on lists.\<close>

definition list_or :: "'a list \<Rightarrow> 'a list \<Rightarrow> 'a list" where
  "list_or xs ys = (if xs = [] then ys else xs)"

definition validate_colors :: "json \<Rightarrow> Result list" where
  "validate_colors data =
     (let invalid = filter (\<lambda>pc. \<not> color_pattern_match (snd pc)) (find_colors data [])
      in list_or
           (map (\<lambda>pc. failure (fst pc @ '': invalid '' @ [CHR 0x27] @ snd pc @ [CHR 0x27]))
              (take 10 invalid))
           [success ''All colors valid hex format''])"

definition validate_players :: "json \<Rightarrow> Result list option" where
  "validate_players data =
     do {
       themes \<leftarrow> py_get data ''themes'' (JList []) \<bind> py_iter;
       map_raise
         (\<lambda>t. do {
            p \<leftarrow> py_getitem t ''style'' \<bind> (\<lambda>style. py_get style ''players'' (JList []));
            n \<leftarrow> py_len p;
            name \<leftarrow> py_getitem t ''name'';
            Some (if n \<ge> 8
                  then success (py_str name @ '' has '' @ dec_str n @ '' player colors'')
                  else failure (py_str name @ '': only '' @ dec_str n @ '' players''))
          })
         themes
     }"

text \<open>\<^verbatim>\<open>themes[0]\<close> and \<^verbatim>\<open>themes[1:]\<close>. The keys of a dictionary read from JSON are
  strings, so that \<^verbatim>\<open>themes[0]\<close> on a dictionary is a \<^verbatim>\<open>KeyError\<close>.\<close>

definition py_first :: "json \<Rightarrow> json option" where
  "py_first obj =
     (case obj of
        JList (x # xs) \<Rightarrow> Some x
      | JStr (c # cs) \<Rightarrow> Some (JStr [c])
      | _ \<Rightarrow> None)"

definition py_rest :: "json \<Rightarrow> json option" where
  "py_rest obj =
     (case obj of
        JList xs \<Rightarrow> Some (JList (drop 1 xs))
      | JStr s \<Rightarrow> Some (JStr (drop 1 s))
      | _ \<Rightarrow> None)"

definition validate_consistency :: "json \<Rightarrow> Result list option" where
  "validate_consistency data =
     do {
       themes \<leftarrow> py_get data ''themes'' (JList []);
       n \<leftarrow> py_len themes;
       if n < 2 then Some [success ''Single theme'']
       else do {
         base_keys \<leftarrow> py_first themes \<bind> (\<lambda>t. py_getitem t ''style'') \<bind> py_keys;
         others \<leftarrow> py_rest themes \<bind> py_iter;
         errors \<leftarrow> map_raise
           (\<lambda>t. do {
              keys \<leftarrow> py_getitem t ''style'' \<bind> py_keys;
              let missing = filter (\<lambda>k. k \<notin> set keys) base_keys;
              let extra = filter (\<lambda>k. k \<notin> set base_keys) keys;
              m1 \<leftarrow> (if missing \<noteq> []
                     then map_option (\<lambda>name. [py_str name @ '': missing '' @ py_str_set missing])
                            (py_getitem t ''name'')
                     else Some []);
              m2 \<leftarrow> (if extra \<noteq> []
                     then map_option (\<lambda>name. [py_str name @ '': extra '' @ py_str_set extra])
                            (py_getitem t ''name'')
                     else Some []);
              Some (m1 @ m2)
            })
           others;
         Some (list_or (map failure (concat errors))
                 [success (''All '' @ dec_str n @ '' variants consistent'')])
       }
     }"

section \<open>Notions used to state the properties\<close>







text \<open>The player list of a variant record, as \<^verbatim>\<open>validate_players\<close> reads it.\<close>

definition variant_players :: "json \<Rightarrow> json list option" where
  "variant_players t =
     (case py_getitem t ''style'' \<bind> (\<lambda>style. py_get style ''players'' (JList [])) of
        Some (JList ps) \<Rightarrow> Some ps
      | _ \<Rightarrow> None)"

text \<open>The set of style keys of a variant record, \<^verbatim>\<open>set(t["style"].keys())\<close>.\<close>

definition style_keys :: "json \<Rightarrow> string set option" where
  "style_keys t = map_option set (py_getitem t ''style'' \<bind> py_keys)"


text \<open>
  The style keys that a base template gives to a variant: the keys that
  \<^verbatim>\<open>generate_variant\<close> writes itself, the keys of the template \<^verbatim>\<open>ui\<close> and the prefixed
  keys of the template \<^verbatim>\<open>terminal\<close>.
\<close>

definition template_style_keys :: "json \<Rightarrow> string set" where
  "template_style_keys base =
     {''background'', ''foreground'', ''accent'', ''border'', ''border.focused'',
      ''elevated_surface.background'', ''surface.background'', ''element.background'',
      ''element.hover'', ''element.active'', ''element.selected'', ''text'',
      ''editor.background'', ''editor.active_line.background'', ''editor.line_number'',
      ''players'', ''syntax''}
     \<union> (case py_getitem base ''ui'' of Some (JObj kvs) \<Rightarrow> fst ` set kvs | _ \<Rightarrow> {})
     \<union> (case py_getitem base ''terminal'' of
          Some (JObj kvs) \<Rightarrow> (\<lambda>kv. ''terminal.'' @ fst kv) ` set kvs
        | _ \<Rightarrow> {})"

text \<open>A small base template and palette, on which the generation is defined.\<close>

definition example_base :: json where
  "example_base =
     JObj [(''$schema'', JStr ''https://zed.dev/schema/themes/v0.2.0.json''),
           (''name'', JStr ''Synthwave84''),
           (''author'', JStr ''somebody''),
           (''variants'',
              JObj [(''classic'', JObj [(''name'', JStr ''Classic''), (''line_number_alpha'', JStr ''80'')]),
                    (''soft'', JObj [(''name'', JStr ''Soft''), (''line_number_alpha'', JStr ''70'')]),
                    (''high_contrast'',
                       JObj [(''name'', JStr ''High Contrast''), (''line_number_alpha'', JStr ''a0'')])]),
           (''ui'', JObj [(''panel.background'', JStr ''{{background.deep}}''),
                          (''scrollbar.thumb.background'', JStr ''{{syntax.type}}40'')]),
           (''terminal'', JObj [(''ansi.red'', JStr ''{{terminal.red}}'')]),
           (''syntax_colors'', JObj [(''type'', JList [JStr ''type'', JStr ''enum'']),
                                     (''foreground'', JList [JStr ''variable''])]),
           (''syntax_styles'', JObj [(''italic'', JList [JStr ''comment'']),
                                     (''bold'', JList [JStr ''type''])]),
           (''syntax_special'', JObj [(''hint'', JStr ''{{syntax.type}}80'')])]"

definition example_palette :: json where
  "example_palette =
     JObj [(''base'',
              JObj [(''background'',
                       JObj [(''deep'', JStr ''#241b2f''), (''surface'', JStr ''#262335''),
                             (''elevated'', JStr ''#34294f''), (''active'', JStr ''#463465'')]),
                    (''foreground'', JObj [(''primary'', JStr ''#ffffff'')]),
                    (''border'', JObj [(''default'', JStr ''#495495''),
                                       (''focused'', JStr ''#ff7edb'')])]),
           (''syntax'', JObj [(''$comment'', JStr ''roles''), (''type'', JStr ''#fe4450'')]),
           (''terminal'', JObj [(''red'', JStr ''#fe4450'')]),
           (''players'', JList [JStr ''#ff7edb'', JStr ''#36f9f6'']),
           (''variants'', JObj [(''soft'', JObj [(''syntax.type'', JStr ''#ff6b75'')])])]"

section \<open>Hexadecimal digits\<close>

lemma hex_digit_val_props:
  assumes "hex_digit_val c = Some d"
  shows "d < 16" "\<not> py_isspace c" "c \<noteq> CHR ''_''" "c \<noteq> CHR ''+''" "c \<noteq> CHR ''-''"
    "c \<noteq> CHR ''x''" "c \<noteq> CHR ''X''" "c \<noteq> CHR ''#''"
  using assms
  by (auto simp: hex_digit_val_def py_isspace_def Let_def split: if_splits)

lemma hex_char_val:
  assumes "d < 16"
  shows "hex_digit_val (hex_char d) = Some d"
proof -
  from assms have "d = 0 \<or> d = 1 \<or> d = 2 \<or> d = 3 \<or> d = 4 \<or> d = 5 \<or> d = 6 \<or> d = 7 \<or> d = 8
      \<or> d = 9 \<or> d = 10 \<or> d = 11 \<or> d = 12 \<or> d = 13 \<or> d = 14 \<or> d = 15"
    by arith
  then show ?thesis
    by (elim disjE) (simp_all add: hex_char_def hex_digit_val_def)
qed

lemma py_int16_two:
  assumes "hex_digit_val a = Some x" "hex_digit_val b = Some y"
  shows "py_int16 [a, b] = Some (int (16 * x + y))"
  using hex_digit_val_props[OF assms(1)] hex_digit_val_props[OF assms(2)] assms
  by (simp add: py_int16_def py_strip_def py_unsigned16_def)

lemma format_02x_byte:
  assumes "0 \<le> n" "n < 256"
  shows "format_02x n = [hex_char (nat n div 16), hex_char (nat n mod 16)]"
proof (cases "nat n < 16")
  case True
  then have "hex_str (nat n) = [hex_char (nat n)]" by simp
  with True assms show ?thesis by (simp add: format_02x_def hex_char_def)
next
  case False
  with assms have "nat n div 16 < 16" by auto
  then have "hex_str (nat n div 16) = [hex_char (nat n div 16)]" by simp
  with False have "hex_str (nat n) = [hex_char (nat n div 16), hex_char (nat n mod 16)]"
    by (subst hex_str.simps) simp
  with assms show ?thesis by (simp add: format_02x_def)
qed

section \<open>C6: hexadecimal and RGB\<close>

text \<open>
  Claim C6. For every RGB triple of integers between 0 and 255, reading back the string
  that \<^verbatim>\<open>rgb_to_hex\<close> writes gives the triple again:
  \<^verbatim>\<open>hex_to_rgb(rgb_to_hex((r, g, b))) == (r, g, b)\<close>.
\<close>

theorem hex_rgb_roundtrip:
  assumes "0 \<le> r" "r \<le> 255" "0 \<le> g" "g \<le> 255" "0 \<le> b" "b \<le> 255"
  shows "hex_to_rgb (rgb_to_hex (r, g, b)) = Some (r, g, b)"
proof -
  have byte: "py_int16 [hex_char (nat n div 16), hex_char (nat n mod 16)] = Some n"
    if "0 \<le> n" "n \<le> 255" for n :: int
  proof -
    from that have "nat n div 16 < 16" "nat n mod 16 < 16" by auto
    then have "py_int16 [hex_char (nat n div 16), hex_char (nat n mod 16)]
        = Some (int (16 * (nat n div 16) + nat n mod 16))"
      by (intro py_int16_two hex_char_val)
    with that show ?thesis by simp
  qed
  have nohash: "hex_char d \<noteq> CHR ''#''" if "d < 16" for d
    using hex_digit_val_props(8)[OF hex_char_val[OF that]] .
  from assms have "nat r div 16 < 16" by auto
  then show ?thesis
    using assms nohash[of "nat r div 16"]
    by (simp add: hex_to_rgb_def rgb_to_hex_def format_02x_byte byte)
qed

theorem hex_rgb_roundtrip_witness:
  "(0::int) \<le> 10 \<and> (10::int) \<le> 255 \<and> (0::int) \<le> 255 \<and> (255::int) \<le> 255 \<and> (0::int) \<le> 0
   \<and> (0::int) \<le> 255 \<and> hex_to_rgb (rgb_to_hex (10, 255, 0)) = Some (10, 255, 0)"
  using hex_rgb_roundtrip [of 10 255 0] by simp

section \<open>C7: the classic variant\<close>

text \<open>
  Claim C7. Deriving the variant \<^verbatim>\<open>classic\<close> returns the base colour unchanged, whatever
  the background and whatever the table of variant adjustments holds.
\<close>

theorem derive_variant_color_classic:
  "derive_variant_color_with adjustments c bg ''classic'' = Some c
   \<and> derive_variant_color c bg ''classic'' = Some c"
  by (simp add: derive_variant_color_def derive_variant_color_with_def)

section \<open>C10: consistency of fewer than two variants\<close>

text \<open>
  Claim C10. On an artifact whose list of themes has fewer than two entries, the
  consistency check returns the single success result \<^verbatim>\<open>OK: Single theme\<close>, whatever the
  entries are: no style key is read.
\<close>

theorem validate_consistency_single:
  assumes "py_get data ''themes'' (JList []) = Some (JList ts)" and "length ts < 2"
  shows "validate_consistency data = Some [\<lparr>ok = True, message = ''OK: Single theme''\<rparr>]"
  using assms by (simp add: validate_consistency_def py_len_def success_def)

theorem validate_consistency_single_witness:
  "py_get (JObj [(''themes'', JList [JInt 5])]) ''themes'' (JList []) = Some (JList [JInt 5])
   \<and> length [JInt 5] < 2
   \<and> validate_consistency (JObj [(''themes'', JList [JInt 5])])
       = Some [\<lparr>ok = True, message = ''OK: Single theme''\<rparr>]"
  using validate_consistency_single [of "JObj [(''themes'', JList [JInt 5])]" "[JInt 5]"]
  by (simp add: py_get_def dict_get_def)

section \<open>C8: the number of players\<close>

lemma those_map_Some:
  assumes "\<forall>x \<in> set xs. \<exists>y. f x = Some y"
  shows "those (map f xs) = Some (map (\<lambda>x. the (f x)) xs)"
  using assms by (induction xs) auto

lemma player_step:
  assumes "variant_players t = Some ps" "py_getitem t ''name'' = Some name"
  shows "(do {
            p \<leftarrow> py_getitem t ''style'' \<bind> (\<lambda>style. py_get style ''players'' (JList []));
            n \<leftarrow> py_len p;
            name \<leftarrow> py_getitem t ''name'';
            Some (if n \<ge> 8
                  then success (py_str name @ '' has '' @ dec_str n @ '' player colors'')
                  else failure (py_str name @ '': only '' @ dec_str n @ '' players''))
          }) = Some (if 8 \<le> length ps
                  then success (py_str name @ '' has '' @ dec_str (length ps) @ '' player colors'')
                  else failure (py_str name @ '': only '' @ dec_str (length ps) @ '' players''))"
proof -
  from assms(1) have "py_getitem t ''style'' \<bind> (\<lambda>style. py_get style ''players'' (JList []))
      = Some (JList ps)"
    unfolding variant_players_def by (simp split: option.splits json.splits)
  then show ?thesis using assms(2) by (simp add: py_len_def)
qed

text \<open>
  Claim C8. For an artifact whose themes are variant records with a name and a player
  list, \<^verbatim>\<open>validate_players\<close> returns one result for each variant, in order; the result
  of a variant passes exactly when its player list has at least 8 entries, and a failing
  result reports the number of entries found. The witness is an artifact with a variant
  of 7 players, which fails, and a variant of 8 players, which passes.
\<close>

theorem validate_players_rule:
  assumes themes: "py_get data ''themes'' (JList []) = Some (JList ts)"
    and wf: "\<forall>t \<in> set ts. variant_players t \<noteq> None \<and> py_getitem t ''name'' \<noteq> None"
  shows "\<exists>rs. validate_players data = Some rs \<and> length rs = length ts
           \<and> (\<forall>i < length ts. \<forall>ps name.
                 variant_players (ts ! i) = Some ps \<longrightarrow> py_getitem (ts ! i) ''name'' = Some name \<longrightarrow>
                 (ok (rs ! i) \<longleftrightarrow> 8 \<le> length ps)
                 \<and> (length ps < 8 \<longrightarrow>
                      message (rs ! i)
                        = ''FAIL: '' @ py_str name @ '': only '' @ dec_str (length ps) @ '' players''))"
proof -
  let ?f = "\<lambda>t. do {
            p \<leftarrow> py_getitem t ''style'' \<bind> (\<lambda>style. py_get style ''players'' (JList []));
            n \<leftarrow> py_len p;
            name \<leftarrow> py_getitem t ''name'';
            Some (if n \<ge> 8
                  then success (py_str name @ '' has '' @ dec_str n @ '' player colors'')
                  else failure (py_str name @ '': only '' @ dec_str n @ '' players''))
          }"
  have step: "\<forall>t \<in> set ts. \<exists>y. ?f t = Some y"
  proof
    fix t assume "t \<in> set ts"
    with wf obtain ps name where "variant_players t = Some ps" "py_getitem t ''name'' = Some name"
      by auto
    from player_step [OF this] show "\<exists>y. ?f t = Some y" by blast
  qed
  have run: "validate_players data = Some (map (\<lambda>t. the (?f t)) ts)"
    using themes those_map_Some [OF step]
    by (simp add: validate_players_def map_raise_def py_iter_def)
  show ?thesis
  proof (intro exI conjI allI impI)
    show "validate_players data = Some (map (\<lambda>t. the (?f t)) ts)" by (rule run)
    show "length (map (\<lambda>t. the (?f t)) ts) = length ts" by simp
  next
    fix i ps name
    assume i: "i < length ts" and ps: "variant_players (ts ! i) = Some ps"
      and name: "py_getitem (ts ! i) ''name'' = Some name"
    show "ok (map (\<lambda>t. the (?f t)) ts ! i) \<longleftrightarrow> 8 \<le> length ps"
      using i player_step [OF ps name] by (simp add: success_def failure_def)
    assume "length ps < 8"
    then show "message (map (\<lambda>t. the (?f t)) ts ! i)
        = ''FAIL: '' @ py_str name @ '': only '' @ dec_str (length ps) @ '' players''"
      using i player_step [OF ps name] by (simp add: failure_def)
  qed
qed

theorem validate_players_rule_witness:
  "\<exists>rs. validate_players
          (JObj [(''themes'',
             JList [JObj [(''name'', JStr ''A''),
                          (''style'', JObj [(''players'', JList (replicate 7 JNull))])],
                    JObj [(''name'', JStr ''B''),
                          (''style'', JObj [(''players'', JList (replicate 8 JNull))])]])])
        = Some rs
      \<and> length rs = 2 \<and> \<not> ok (rs ! 0) \<and> message (rs ! 0) = ''FAIL: A: only 7 players''
      \<and> ok (rs ! 1)"
proof -
  let ?A = "JObj [(''name'', JStr ''A''),
                  (''style'', JObj [(''players'', JList (replicate 7 JNull))])]"
  let ?B = "JObj [(''name'', JStr ''B''),
                  (''style'', JObj [(''players'', JList (replicate 8 JNull))])]"
  let ?D = "JObj [(''themes'', JList [?A, ?B])]"
  have themes: "py_get ?D ''themes'' (JList []) = Some (JList [?A, ?B])"
    by (simp add: py_get_def dict_get_def)
  have pa: "variant_players ?A = Some (replicate 7 JNull)"
    and pb: "variant_players ?B = Some (replicate 8 JNull)"
    by (simp_all add: variant_players_def py_getitem_def py_get_def dict_get_def)
  have na: "py_getitem ?A ''name'' = Some (JStr ''A'')"
    and nb: "py_getitem ?B ''name'' = Some (JStr ''B'')"
    by (simp_all add: py_getitem_def)
  have wf: "\<forall>t \<in> set [?A, ?B]. variant_players t \<noteq> None \<and> py_getitem t ''name'' \<noteq> None"
    using pa pb na nb by simp
  from validate_players_rule [OF themes wf] obtain rs where
    run: "validate_players ?D = Some rs" and len: "length rs = length [?A, ?B]"
    and each: "\<forall>i < length [?A, ?B]. \<forall>ps name.
                 variant_players ([?A, ?B] ! i) = Some ps \<longrightarrow>
                 py_getitem ([?A, ?B] ! i) ''name'' = Some name \<longrightarrow>
                 (ok (rs ! i) \<longleftrightarrow> 8 \<le> length ps)
                 \<and> (length ps < 8 \<longrightarrow>
                      message (rs ! i)
                        = ''FAIL: '' @ py_str name @ '': only '' @ dec_str (length ps) @ '' players'')"
    by blast
  from each [rule_format, of 0 "replicate 7 JNull" "JStr ''A''"] pa na
  have a: "\<not> ok (rs ! 0)" "message (rs ! 0) = ''FAIL: A: only 7 players''"
    by (simp_all add: py_str_def dec_char_def)
  from each [rule_format, of 1 "replicate 8 JNull" "JStr ''B''"] pb nb
  have b: "ok (rs ! 1)" by simp
  from run len a b show ?thesis by simp
qed

section \<open>C1: the format of colours\<close>

text \<open>
  Claim C1 says that \<^verbatim>\<open>validate_colors\<close> reports every string that begins with
  \<^verbatim>\<open>#\<close>, is reachable in the artifact and does not match the pattern. The walk of
  \<^verbatim>\<open>find_colors\<close> enters dictionaries only, and the variants of an artifact are the
  elements of the list \<^verbatim>\<open>themes\<close>: on the artifact below, whose only variant has the
  background \<^verbatim>\<open>#zzz\<close>, the validation returns its success result.
\<close>

theorem validate_colors_skips_lists:
  "validate_colors
     (JObj [(''$schema'', JStr ''s''),
            (''themes'', JList [JObj [(''name'', JStr ''n''), (''appearance'', JStr ''dark''),
                                      (''style'', JObj [(''background'', JStr ''#zzz'')])]])])
   = [\<lparr>ok = True, message = ''OK: All colors valid hex format''\<rparr>]
   \<and> \<not> color_pattern_match ''#zzz''"
  by (simp add: validate_colors_def list_or_def success_def startswith_def color_pattern_match_def)

section \<open>C5: template resolution\<close>










section \<open>C3: the style keys of the generated variants\<close>

lemma keys_foldl_dict_set:
  "fst ` set (foldl (\<lambda>d kv. dict_set d (fst kv) (snd kv)) d items) = fst ` set d \<union> fst ` set items"
  by (induction items arbitrary: d) (auto simp: dict_set_def dom_update)

lemma keys_dict_of_items: "fst ` set (dict_of_items items) = fst ` set items"
  by (simp add: dict_of_items_def keys_foldl_dict_set)

lemma those_map_keys:
  assumes "those (map (\<lambda>kv. map_option (Pair (g kv)) (f kv)) kvs) = Some kvs'"
  shows "map fst kvs' = map g kvs"
  using assms
  by (induction kvs arbitrary: kvs') (auto split: option.splits)

lemma resolve_value_items:
  assumes "resolve_value v colors = Some ui" "py_items ui = Some ui_items"
  shows "\<exists>kvs. v = JObj kvs \<and> map fst ui_items = map fst kvs"
proof (cases v)
  case (JObj kvs)
  with assms show ?thesis
    by (auto simp: py_items_def dest: those_map_keys)
qed (use assms in \<open>auto simp: py_items_def split: if_splits\<close>)

lemma py_getitem_JObj: "py_getitem (JObj kvs) k = map_of kvs k"
  by (simp add: py_getitem_def)

lemma generate_variant_parts:
  assumes "generate_variant base palette variant_key = Some t"
  shows "\<exists>colors uiv ui ui_items tv titems terminal.
      py_getitem base ''ui'' = Some uiv \<and> resolve_value uiv colors = Some ui
      \<and> py_items ui = Some ui_items
      \<and> py_getitem base ''terminal'' = Some tv \<and> py_items tv = Some titems
      \<and> map_raise
           (\<lambda>kv. map_option (Pair (''terminal.'' @ fst kv)) (resolve_value (snd kv) colors))
           titems = Some terminal
      \<and> style_keys t = Some
          ({''background'', ''foreground'', ''accent'', ''border'', ''border.focused'',
            ''elevated_surface.background'', ''surface.background'', ''element.background'',
            ''element.hover'', ''element.active'', ''element.selected'', ''text'',
            ''editor.background'', ''editor.active_line.background'', ''editor.line_number'',
            ''players'', ''syntax''} \<union> fst ` set ui_items \<union> fst ` set terminal)"
  using assms unfolding generate_variant_def Let_def
  apply (clarsimp simp: bind_eq_Some_conv)
  apply (simp add: style_keys_def py_getitem_JObj py_keys_def keys_dict_of_items image_Un)
  apply (intro exI conjI)
     apply assumption+
  apply (rule refl)
  done

lemma generate_variant_style_keys:
  assumes "generate_variant base palette variant_key = Some t"
  shows "style_keys t = Some (template_style_keys base)"
proof -
  from generate_variant_parts [OF assms] obtain colors uiv ui ui_items tv titems terminal where
    uiv: "py_getitem base ''ui'' = Some uiv" and ui: "resolve_value uiv colors = Some ui"
    and ui_items: "py_items ui = Some ui_items"
    and tv: "py_getitem base ''terminal'' = Some tv" and titems: "py_items tv = Some titems"
    and terminal: "map_raise
         (\<lambda>kv. map_option (Pair (''terminal.'' @ fst kv)) (resolve_value (snd kv) colors))
         titems = Some terminal"
    and style: "style_keys t = Some
          ({''background'', ''foreground'', ''accent'', ''border'', ''border.focused'',
            ''elevated_surface.background'', ''surface.background'', ''element.background'',
            ''element.hover'', ''element.active'', ''element.selected'', ''text'',
            ''editor.background'', ''editor.active_line.background'', ''editor.line_number'',
            ''players'', ''syntax''} \<union> fst ` set ui_items \<union> fst ` set terminal)"
    by blast
  from resolve_value_items [OF ui ui_items] obtain kvs where
    kvs: "uiv = JObj kvs" "map fst ui_items = map fst kvs" by blast
  then have k1: "fst ` set ui_items = fst ` set kvs"
    by (metis set_map)
  from titems have tv': "tv = JObj titems"
    by (cases tv) (simp_all add: py_items_def)
  from terminal have "map fst terminal = map (\<lambda>kv. ''terminal.'' @ fst kv) titems"
    unfolding map_raise_def by (rule those_map_keys)
  then have k2: "fst ` set terminal = (\<lambda>kv. ''terminal.'' @ fst kv) ` set titems"
    by (metis set_map)
  show ?thesis
    unfolding style k1 k2 template_style_keys_def using uiv kvs(1) tv tv'
    by simp
qed

lemma those_map_all:
  assumes "those (map f xs) = Some ys"
  shows "length ys = length xs \<and> (\<forall>i < length xs. f (xs ! i) = Some (ys ! i))"
  using assms
proof (induction xs arbitrary: ys)
  case Nil
  then show ?case by simp
next
  case (Cons x xs)
  then obtain y ys' where "f x = Some y" "those (map f xs) = Some ys'" "ys = y # ys'"
    by (auto split: option.splits)
  with Cons.IH [of ys'] show ?case
    by (auto simp: nth_Cons split: nat.splits)
qed

text \<open>
  Claim C3. Whenever \<^verbatim>\<open>generate_theme\<close> returns an artifact for a base template and a
  palette, the artifact has one variant record for each variant key, every one of them
  has a style dictionary, and the set of style keys of every variant is the set of style
  keys of the first one.
\<close>

theorem generate_theme_consistent:
  assumes "generate_theme base palette = Some artifact"
  shows "\<exists>themes. py_getitem artifact ''themes'' = Some (JList themes)
           \<and> length themes = length VARIANT_KEYS
           \<and> (\<forall>t \<in> set themes. style_keys t \<noteq> None \<and> style_keys t = style_keys (hd themes))"
proof -
  from assms obtain themes where
    themes: "map_raise (generate_variant base palette) VARIANT_KEYS = Some themes"
    and art: "py_getitem artifact ''themes'' = Some (JList themes)"
    unfolding generate_theme_def
    by (auto simp: bind_eq_Some_conv py_getitem_def)
  from themes have len: "length themes = length VARIANT_KEYS"
    and each: "\<forall>i < length VARIANT_KEYS. generate_variant base palette (VARIANT_KEYS ! i) = Some (themes ! i)"
    unfolding map_raise_def by (auto dest: those_map_all)
  have keys: "style_keys t = Some (template_style_keys base)" if "t \<in> set themes" for t
  proof -
    from that obtain i where "i < length themes" "t = themes ! i"
      by (auto simp: in_set_conv_nth)
    with len each have "generate_variant base palette (VARIANT_KEYS ! i) = Some t" by simp
    then show ?thesis by (rule generate_variant_style_keys)
  qed
  from len have "themes \<noteq> []" by (auto simp: VARIANT_KEYS_def)
  then have "hd themes \<in> set themes" by simp
  with keys have "style_keys (hd themes) = Some (template_style_keys base)" by blast
  with keys art len show ?thesis by auto
qed

theorem generate_theme_consistent_witness:
  "\<exists>artifact themes.
     generate_theme example_base example_palette = Some artifact
     \<and> py_getitem artifact ''themes'' = Some (JList themes)
     \<and> length themes = length VARIANT_KEYS
     \<and> (\<forall>t \<in> set themes. style_keys t \<noteq> None \<and> style_keys t = style_keys (hd themes))"
proof -
  have "generate_theme example_base example_palette \<noteq> None"
    by code_simp
  then obtain artifact where a: "generate_theme example_base example_palette = Some artifact"
    by blast
  from generate_theme_consistent [OF a] a show ?thesis by blast
qed


section \<open>Bounds of the colour channels\<close>










section \<open>Colours in the format of the validator\<close>









section \<open>C9: the format of the colours that are computed\<close>



section \<open>C4: the outcome of the contrast search\<close>





section \<open>C2: a second call of the contrast search\<close>

text \<open>
  Claim C2 says that \<^verbatim>\<open>ensure_contrast\<close> is idempotent. No theorem states it here. When
  the colour returned meets the ratio, a second call returns it at its first test. When
  the search is exhausted, the colour returned is \<^verbatim>\<open>hsl_to_hex(h, s, l)\<close> at the
  lightness 0 or 100, and what a second call makes of it depends on the digits that the
  rounding of binary floating point leaves in \<^verbatim>\<open>l + s - l * s\<close> and in the channels
  before \<^verbatim>\<open>int\<close> truncates them. With the exact arithmetic of this embedding the channels
  at the lightness 100 are all 255; with binary floating point a channel can be 254, and
  the second call then returns another colour. The property is one of floating-point
  rounding, which the embedding leaves out.
\<close>

end
